theory Spec2Isabelle
  imports Complex_Main
begin

section \<open>The XhrPlugin of aws-rum-web: data model\<close>

text \<open>
  The development embeds \<^verbatim>\<open>src/plugins/event-plugins/XhrPlugin.ts\<close>. The plugin keeps a
  map from XMLHttpRequest objects to tracking records and talks to its host through calls
  (\<^verbatim>\<open>addEventListener\<close>, \<^verbatim>\<open>setRequestHeader\<close>, \<^verbatim>\<open>context.record\<close>, the original
  \<^verbatim>\<open>open\<close> and \<^verbatim>\<open>send\<close>). An XMLHttpRequest object is identified by its address; the calls
  the plugin makes are appended, in order, to a log.
\<close>

type_synonym handle = nat

text \<open>The three values the plugin reads from an XMLHttpRequest. \<^verbatim>\<open>status\<close> is an
  unsigned integer; \<^verbatim>\<open>getResponseHeader\<close> answers \<^verbatim>\<open>null\<close> (here \<open>None\<close>) for a header the
  response does not have.\<close>

record XMLHttpRequest =
  status :: nat
  statusText :: string
  getResponseHeader :: "string \<Rightarrow> string option"

text \<open>The options of \<^verbatim>\<open>HttpPluginConfig\<close> that the plugin reads.\<close>

record HttpPluginConfig =
  logicalServiceName :: string
  recordAllRequests :: bool
  addXRayTraceIdHeader :: bool
  stackTraceLength :: nat

text \<open>\<^verbatim>\<open>context.getSession()\<close> answers a session or \<^verbatim>\<open>undefined\<close>; the field read is
  \<^verbatim>\<open>record\<close>. \<^verbatim>\<open>context.config.enableXRay\<close> is the tracing switch.\<close>

record Session =
  session_record :: bool

record PluginContext =
  enableXRay :: bool
  getSession :: "Session option"

subsection \<open>Trace records\<close>

record HttpRequestInfo =
  request_method :: string
  traced :: bool

text \<open>A JavaScript number that \<^verbatim>\<open>parseInt\<close> can return: \<^verbatim>\<open>NaN\<close>, the negative zero, an
  integer of magnitude at most \<open>2 ^ 53\<close> (a double holds it exactly), or \<open>Rounded n\<close>, which
  stands for the double, or the infinity, that the engine returns for the integer \<open>n\<close> of
  larger magnitude; the value of a rounded number is not modelled.\<close>

datatype Number = NaN | NegativeZero | Exact int | Rounded int

record HttpResponseInfo =
  response_status :: nat
  content_length :: "Number option"

record Http =
  http_request :: HttpRequestInfo
  http_response :: "HttpResponseInfo option"

record XRayException =
  exception_type :: string
  exception_message :: "string option"

record Cause =
  exceptions :: "XRayException list"

record Subsegment =
  subsegment_id :: string
  subsegment_name :: string
  subsegment_start_time :: real
  subsegment_end_time :: "real option"
  http :: Http
  subsegment_error :: "bool option"
  cause :: "Cause option"

record XRayTraceEvent =
  segment_name :: string
  segment_id :: string
  trace_id :: string
  start_time :: real
  end_time :: "real option"
  subsegments :: "Subsegment list"

text \<open>The type \<^verbatim>\<open>XhrDetails\<close>; \<^verbatim>\<open>trace\<close> is optional. The first field
  is called \<^verbatim>\<open>method\<close> in the source.\<close>

record XhrDetails =
  xhr_method :: string
  url :: string
  async :: bool
  trace :: "XRayTraceEvent option"

subsection \<open>HTTP events and errors\<close>

text \<open>The value handed to \<^verbatim>\<open>recordHttpEventWithError\<close> is either an \<^verbatim>\<open>XhrError\<close> object built
  from a message, or a string.\<close>

datatype ErrorValue = XhrError string | ErrorString string

record ErrorEvent =
  event_type :: string
  event_error :: ErrorValue

record HttpEventRequest =
  event_method :: string

record HttpEventResponse =
  event_status :: nat
  event_statusText :: string

text \<open>The type of the error description, \<open>'e\<close>, is whatever \<^verbatim>\<open>errorEventToJsErrorEvent\<close>
  produces.\<close>

record 'e HttpEvent =
  version :: string
  request :: HttpEventRequest
  response :: "HttpEventResponse option"
  error :: "'e option"

datatype EventType = HTTP_EVENT_TYPE | XRAY_TRACE_EVENT_TYPE

datatype 'e Payload = HttpPayload "'e HttpEvent" | TracePayload XRayTraceEvent

subsection \<open>The host and the plugin\<close>

datatype Listener =
  handleXhrLoadEvent_listener | handleXhrErrorEvent_listener
  | handleXhrAbortEvent_listener | handleXhrTimeoutEvent_listener

text \<open>The calls the plugin makes on its host. A recorded payload is the value the object has
  at the moment of the call.\<close>

datatype 'e HostCall =
  AddEventListener handle string Listener
  | SetRequestHeader handle string string
  | ContextRecord EventType "'e Payload"
  | OriginalOpen handle string string bool
  | OriginalSend handle

text \<open>The fields of the plugin (\<open>config\<close>, \<open>xhrMap\<close> and \<^verbatim>\<open>context\<close>, here \<open>plugin_context\<close>), the XMLHttpRequest
  objects of the host and the log of calls.\<close>

record 'e World =
  config :: HttpPluginConfig
  xhrMap :: "handle \<Rightarrow> XhrDetails option"
  plugin_context :: PluginContext
  host :: "handle \<Rightarrow> XMLHttpRequest"
  calls :: "'e HostCall list"

text \<open>What the plugin imports from \<^verbatim>\<open>../utils/http-utils\<close> and
  \<^verbatim>\<open>../utils/js-error-utils\<close> and is not among the sources: the request filter, the
  hostname parser, the header name and value, and the error normalisation. They are
  parameters of the model. \<^verbatim>\<open>epochTime\<close> is missing too: what it answers at a call is an
  argument of the function that makes the call.\<close>

record 'e Env =
  isUrlAllowed :: "string \<Rightarrow> HttpPluginConfig \<Rightarrow> bool"
  requestInfoToHostname :: "string \<Rightarrow> string"
  X_AMZN_TRACE_ID :: string
  getAmznTraceIdHeaderValue :: "string \<Rightarrow> string \<Rightarrow> string"
  errorEventToJsErrorEvent :: "ErrorEvent \<Rightarrow> nat \<Rightarrow> 'e"

text \<open>The identifiers that the trace constructors generate for one request.\<close>

record Fresh =
  fresh_segment_id :: string
  fresh_trace_id :: string
  fresh_subsegment_id :: string

datatype error = TypeError

text \<open>A handler either returns, or throws with the world as it is at the throw.\<close>

type_synonym 'e result = "(error \<times> 'e World) + 'e World"

section \<open>The JavaScript built-ins the plugin calls\<close>

text \<open>\<^verbatim>\<open>parseInt(string, 10)\<close> of ECMAScript: the argument is converted to a string
  (\<^verbatim>\<open>null\<close> becomes the text "null"), leading white space is dropped, one sign is read, and
  \<open>Z\<close> is the longest prefix of decimal digits; with no digit the result is \<^verbatim>\<open>NaN\<close>.
  \<open>mathInt\<close> is the mathematical integer that \<open>Z\<close> denotes, and the result is the number
  for the signed integer: the negative zero for a zero after a minus sign, the integer itself
  up to \<open>2 ^ 53 = 9007199254740992\<close>, a rounded number beyond. A header value is a byte
  string, so the white space characters are the seven below.\<close>

definition ToString :: "string option \<Rightarrow> string" where
  "ToString v = (case v of None \<Rightarrow> ''null'' | Some s \<Rightarrow> s)"

definition isStrWhiteSpaceChar :: "char \<Rightarrow> bool" where
  "isStrWhiteSpaceChar c = ((of_char c :: nat) \<in> {9, 10, 11, 12, 13, 32, 160})"

definition isDecimalDigit :: "char \<Rightarrow> bool" where
  "isDecimalDigit c = (48 \<le> (of_char c :: nat) \<and> (of_char c :: nat) \<le> 57)"

definition digitValue :: "char \<Rightarrow> int" where
  "digitValue c = int (of_char c) - 48"

definition mathInt :: "string \<Rightarrow> int" where
  "mathInt Z = foldl (\<lambda>acc c. 10 * acc + digitValue c) 0 Z"

definition toNumber :: "int \<Rightarrow> int \<Rightarrow> Number" where
  "toNumber sign m =
     (if m = 0 then (if sign = - 1 then NegativeZero else Exact 0)
      else if m \<le> 9007199254740992 then Exact (sign * m)
      else Rounded (sign * m))"

definition parseInt :: "string option \<Rightarrow> Number" where
  "parseInt v =
     (let S = dropWhile isStrWhiteSpaceChar (ToString v);
          sign = (if S \<noteq> [] \<and> hd S = CHR ''-'' then - 1 else 1);
          S' = (if S \<noteq> [] \<and> (hd S = CHR ''+'' \<or> hd S = CHR ''-'') then tl S else S);
          Z = takeWhile isDecimalDigit S'
      in if Z = [] then NaN else toNumber sign (mathInt Z))"

definition isNaN :: "Number \<Rightarrow> bool" where
  "isNaN v = (v = NaN)"

text \<open>\<^verbatim>\<open>Number.prototype.toString\<close> on a non-negative integer: its decimal digits.\<close>

definition digitChar :: "nat \<Rightarrow> char" where
  "digitChar d = ''0123456789'' ! d"

function toString :: "nat \<Rightarrow> string" where
  "toString n = (if n < 10 then [digitChar n] else toString (n div 10) @ [digitChar (n mod 10)])"
  by pat_completeness auto
termination
  by (relation "measure (\<lambda>n. n)") auto

declare toString.simps [simp del]

section \<open>The trace constructors\<close>

text \<open>Modelled from the spec: \<^verbatim>\<open>createXRayTraceEvent\<close> and \<^verbatim>\<open>createXRaySubsegment\<close> of
  \<^verbatim>\<open>../utils/http-utils\<close> are not among the sources. By the spec's data model a trace
  record is a root span with an id, a trace id, a start time, no end time yet and its
  subsegments; a subsegment has an id, a name, a start time, no end time yet and the
  \<^verbatim>\<open>http\<close> description; \<^verbatim>\<open>error\<close> and \<^verbatim>\<open>cause\<close> are absent until a failure. The identifiers
  are inputs.\<close>

definition createXRayTraceEvent :: "string \<Rightarrow> real \<Rightarrow> Fresh \<Rightarrow> XRayTraceEvent" where
  "createXRayTraceEvent name startTime fresh =
     \<lparr>segment_name = name, segment_id = fresh_segment_id fresh,
      trace_id = fresh_trace_id fresh, start_time = startTime, end_time = None,
      subsegments = []\<rparr>"

definition createXRaySubsegment :: "string \<Rightarrow> real \<Rightarrow> Http \<Rightarrow> Fresh \<Rightarrow> Subsegment" where
  "createXRaySubsegment name startTime h fresh =
     \<lparr>subsegment_id = fresh_subsegment_id fresh, subsegment_name = name,
      subsegment_start_time = startTime, subsegment_end_time = None, http = h,
      subsegment_error = None, cause = None\<rparr>"

section \<open>The plugin\<close>

subsection \<open>Calls on the host\<close>

text \<open>A call on the host is logged and taken to return normally.\<close>

definition call :: "'e HostCall \<Rightarrow> 'e World \<Rightarrow> 'e World" where
  "call c w = w\<lparr>calls := calls w @ [c]\<rparr>"

definition addEventListener :: "handle \<Rightarrow> string \<Rightarrow> Listener \<Rightarrow> 'e World \<Rightarrow> 'e World" where
  "addEventListener this ty l w = call (AddEventListener this ty l) w"

definition setRequestHeader :: "handle \<Rightarrow> string \<Rightarrow> string \<Rightarrow> 'e World \<Rightarrow> 'e World" where
  "setRequestHeader this name v w = call (SetRequestHeader this name v) w"

definition context_record :: "EventType \<Rightarrow> 'e Payload \<Rightarrow> 'e World \<Rightarrow> 'e World" where
  "context_record ty p w = call (ContextRecord ty p) w"

text \<open>The calls made between two worlds, and the payloads recorded under one event type
  among them.\<close>

definition emitted :: "'e World \<Rightarrow> 'e World \<Rightarrow> 'e HostCall list" where
  "emitted w w' = drop (length (calls w)) (calls w')"

fun recordedAs :: "EventType \<Rightarrow> 'e HostCall \<Rightarrow> 'e Payload option" where
  "recordedAs ty (ContextRecord ty' p) = (if ty' = ty then Some p else None)"
| "recordedAs ty (AddEventListener h n l) = None"
| "recordedAs ty (SetRequestHeader h n v) = None"
| "recordedAs ty (OriginalOpen h m u a) = None"
| "recordedAs ty (OriginalSend h) = None"

definition recorded :: "EventType \<Rightarrow> 'e HostCall list \<Rightarrow> 'e Payload list" where
  "recorded ty cs = List.map_filter (recordedAs ty) cs"

fun headerSet :: "handle \<Rightarrow> 'e HostCall \<Rightarrow> (string \<times> string) option" where
  "headerSet this (SetRequestHeader h n v) = (if h = this then Some (n, v) else None)"
| "headerSet this (AddEventListener h n l) = None"
| "headerSet this (ContextRecord ty p) = None"
| "headerSet this (OriginalOpen h m u a) = None"
| "headerSet this (OriginalSend h) = None"

definition headersSet :: "handle \<Rightarrow> 'e HostCall list \<Rightarrow> (string \<times> string) list" where
  "headersSet this cs = List.map_filter (headerSet this) cs"

fun listenerAdded :: "handle \<Rightarrow> 'e HostCall \<Rightarrow> (string \<times> Listener) option" where
  "listenerAdded this (AddEventListener h n l) = (if h = this then Some (n, l) else None)"
| "listenerAdded this (SetRequestHeader h n v) = None"
| "listenerAdded this (ContextRecord ty p) = None"
| "listenerAdded this (OriginalOpen h m u a) = None"
| "listenerAdded this (OriginalSend h) = None"

definition listenersAdded :: "handle \<Rightarrow> 'e HostCall list \<Rightarrow> (string \<times> Listener) list" where
  "listenersAdded this cs = List.map_filter (listenerAdded this) cs"

subsection \<open>Configuration and emission\<close>

definition this_addXRayTraceIdHeader :: "'e World \<Rightarrow> bool" where
  "this_addXRayTraceIdHeader w = addXRayTraceIdHeader (config w)"

definition isTracingEnabled :: "'e World \<Rightarrow> bool" where
  "isTracingEnabled w = enableXRay (plugin_context w)"

definition isSessionRecorded :: "'e World \<Rightarrow> bool" where
  "isSessionRecorded w =
     (case getSession (plugin_context w) of
        None \<Rightarrow> False
      | Some s \<Rightarrow> session_record s \<or> False)"

definition statusOk :: "nat \<Rightarrow> bool" where
  "statusOk st = (st \<ge> 200 \<and> st < 300)"

definition recordHttpEventWithResponse ::
  "XhrDetails \<Rightarrow> XMLHttpRequest \<Rightarrow> 'e World \<Rightarrow> 'e World" where
  "recordHttpEventWithResponse xhrDetails xhr w =
     (if recordAllRequests (config w) \<or> \<not> statusOk (status xhr)
      then context_record HTTP_EVENT_TYPE
             (HttpPayload
                \<lparr>version = ''1.0.0'',
                 request = \<lparr>event_method = xhr_method xhrDetails\<rparr>,
                 response = Some \<lparr>event_status = status xhr,
                                  event_statusText = statusText xhr\<rparr>,
                 error = None\<rparr>) w
      else w)"

definition recordHttpEventWithError ::
  "'e Env \<Rightarrow> XhrDetails \<Rightarrow> ErrorValue \<Rightarrow> 'e World \<Rightarrow> 'e World" where
  "recordHttpEventWithError env xhrDetails err w =
     context_record HTTP_EVENT_TYPE
       (HttpPayload
          \<lparr>version = ''1.0.0'',
           request = \<lparr>event_method = xhr_method xhrDetails\<rparr>,
           response = None,
           error = Some (errorEventToJsErrorEvent env
                           \<lparr>event_type = ''error'', event_error = err\<rparr>
                           (stackTraceLength (config w)))\<rparr>) w"

definition recordTraceEvent :: "XRayTraceEvent \<Rightarrow> 'e World \<Rightarrow> 'e World" where
  "recordTraceEvent tr w =
     (if isTracingEnabled w \<and> isSessionRecorded w
      then context_record XRAY_TRACE_EVENT_TYPE (TracePayload tr) w
      else w)"

text \<open>\<open>xhrDetails\<close> is the object stored in \<open>xhrMap\<close>: an assignment to its \<^verbatim>\<open>trace\<close> is
  seen through the map.\<close>

definition setTrace :: "handle \<Rightarrow> XhrDetails \<Rightarrow> XRayTraceEvent \<Rightarrow> 'e World \<Rightarrow> 'e World" where
  "setTrace this xhrDetails tr w =
     w\<lparr>xhrMap := (xhrMap w)(this \<mapsto> xhrDetails\<lparr>trace := Some tr\<rparr>)\<rparr>"

subsection \<open>The four terminal handlers\<close>

text \<open>\<open>now\<close> is what \<^verbatim>\<open>epochTime()\<close> answers in the handler and \<open>xhr\<close> is the target of the
  event. Reading a field of an undefined \<^verbatim>\<open>trace\<close> or of an undefined \<^verbatim>\<open>subsegments[0]\<close>
  throws a TypeError.\<close>

definition handleXhrLoadEvent :: "'e Env \<Rightarrow> real \<Rightarrow> handle \<Rightarrow> 'e World \<Rightarrow> 'e result" where
  "handleXhrLoadEvent env now xhr w =
     (case xhrMap w xhr of
        None \<Rightarrow> Inr w
      | Some xhrDetails \<Rightarrow>
          (let endTime = now in
           case trace xhrDetails of
             None \<Rightarrow> Inl (TypeError, w)
           | Some tr \<Rightarrow>
               (let tr1 = tr\<lparr>end_time := Some endTime\<rparr> in
                case subsegments tr1 of
                  [] \<Rightarrow> Inl (TypeError, setTrace xhr xhrDetails tr1 w)
                | s # ss \<Rightarrow>
                    (let s1 = s\<lparr>subsegment_end_time := Some endTime\<rparr>;
                         s2 = s1\<lparr>http := (http s1)
                                \<lparr>http_response :=
                                   Some \<lparr>response_status = status (host w xhr),
                                         content_length = None\<rparr>\<rparr>\<rparr>;
                         cl = parseInt (getResponseHeader (host w xhr) ''Content-Length'');
                         s3 = (if \<not> isNaN cl
                               then s2\<lparr>http := (http s2)
                                      \<lparr>http_response :=
                                         Some \<lparr>response_status = status (host w xhr),
                                               content_length =
                                                 Some (parseInt (getResponseHeader (host w xhr)
                                                                   ''Content-Length''))\<rparr>\<rparr>\<rparr>
                               else s2);
                         tr2 = tr1\<lparr>subsegments := s3 # ss\<rparr>;
                         w1 = setTrace xhr xhrDetails tr2 w
                     in Inr (recordHttpEventWithResponse (xhrDetails\<lparr>trace := Some tr2\<rparr>)
                               (host w xhr) (recordTraceEvent tr2 w1))))))"

definition handleXhrErrorEvent :: "'e Env \<Rightarrow> real \<Rightarrow> handle \<Rightarrow> 'e World \<Rightarrow> 'e result" where
  "handleXhrErrorEvent env now xhr w =
     (let errorName = ''XMLHttpRequest error'';
          errorMessage =
            (if statusText (host w xhr) \<noteq> []
             then toString (status (host w xhr)) @ '': '' @ statusText (host w xhr)
             else toString (status (host w xhr)))
      in case xhrMap w xhr of
        None \<Rightarrow> Inr w
      | Some xhrDetails \<Rightarrow>
          (let endTime = now in
           case trace xhrDetails of
             None \<Rightarrow> Inl (TypeError, w)
           | Some tr \<Rightarrow>
               (let tr1 = tr\<lparr>end_time := Some endTime\<rparr> in
                case subsegments tr1 of
                  [] \<Rightarrow> Inl (TypeError, setTrace xhr xhrDetails tr1 w)
                | s # ss \<Rightarrow>
                    (let s1 = s\<lparr>subsegment_end_time := Some endTime,
                                 subsegment_error := Some True,
                                 cause := Some \<lparr>exceptions =
                                   [\<lparr>exception_type = errorName,
                                     exception_message = Some errorMessage\<rparr>]\<rparr>\<rparr>;
                         tr2 = tr1\<lparr>subsegments := s1 # ss\<rparr>;
                         w1 = setTrace xhr xhrDetails tr2 w
                     in Inr (recordHttpEventWithError env (xhrDetails\<lparr>trace := Some tr2\<rparr>)
                               (XhrError errorMessage) (recordTraceEvent tr2 w1))))))"

definition handleXhrAbortEvent :: "'e Env \<Rightarrow> real \<Rightarrow> handle \<Rightarrow> 'e World \<Rightarrow> 'e result" where
  "handleXhrAbortEvent env now xhr w =
     (let errorName = ''XMLHttpRequest abort''
      in case xhrMap w xhr of
        None \<Rightarrow> Inr w
      | Some xhrDetails \<Rightarrow>
          (let endTime = now in
           case trace xhrDetails of
             None \<Rightarrow> Inl (TypeError, w)
           | Some tr \<Rightarrow>
               (let tr1 = tr\<lparr>end_time := Some endTime\<rparr> in
                case subsegments tr1 of
                  [] \<Rightarrow> Inl (TypeError, setTrace xhr xhrDetails tr1 w)
                | s # ss \<Rightarrow>
                    (let s1 = s\<lparr>subsegment_end_time := Some endTime,
                                 subsegment_error := Some True,
                                 cause := Some \<lparr>exceptions =
                                   [\<lparr>exception_type = errorName,
                                     exception_message = None\<rparr>]\<rparr>\<rparr>;
                         tr2 = tr1\<lparr>subsegments := s1 # ss\<rparr>;
                         w1 = setTrace xhr xhrDetails tr2 w
                     in Inr (recordHttpEventWithError env (xhrDetails\<lparr>trace := Some tr2\<rparr>)
                               (ErrorString errorName) (recordTraceEvent tr2 w1))))))"

definition handleXhrTimeoutEvent :: "'e Env \<Rightarrow> real \<Rightarrow> handle \<Rightarrow> 'e World \<Rightarrow> 'e result" where
  "handleXhrTimeoutEvent env now xhr w =
     (let errorName = ''XMLHttpRequest timeout''
      in case xhrMap w xhr of
        None \<Rightarrow> Inr w
      | Some xhrDetails \<Rightarrow>
          (let endTime = now in
           case trace xhrDetails of
             None \<Rightarrow> Inl (TypeError, w)
           | Some tr \<Rightarrow>
               (let tr1 = tr\<lparr>end_time := Some endTime\<rparr> in
                case subsegments tr1 of
                  [] \<Rightarrow> Inl (TypeError, setTrace xhr xhrDetails tr1 w)
                | s # ss \<Rightarrow>
                    (let s1 = s\<lparr>subsegment_end_time := Some endTime,
                                 subsegment_error := Some True,
                                 cause := Some \<lparr>exceptions =
                                   [\<lparr>exception_type = errorName,
                                     exception_message = None\<rparr>]\<rparr>\<rparr>;
                         tr2 = tr1\<lparr>subsegments := s1 # ss\<rparr>;
                         w1 = setTrace xhr xhrDetails tr2 w
                     in Inr (recordHttpEventWithError env (xhrDetails\<lparr>trace := Some tr2\<rparr>)
                               (ErrorString errorName) (recordTraceEvent tr2 w1))))))"

subsection \<open>The wrappers of \<^verbatim>\<open>send\<close> and \<^verbatim>\<open>open\<close>\<close>

text \<open>\<open>now\<close> is what \<^verbatim>\<open>epochTime()\<close> answers. The new subsegment is pushed onto the
  subsegments of the new trace.\<close>

definition initializeTrace ::
  "'e Env \<Rightarrow> real \<Rightarrow> Fresh \<Rightarrow> HttpPluginConfig \<Rightarrow> XhrDetails \<Rightarrow> XhrDetails" where
  "initializeTrace env now fresh cfg xhrDetails =
     (let startTime = now;
          tr = createXRayTraceEvent (logicalServiceName cfg) startTime fresh
      in xhrDetails\<lparr>trace := Some (tr\<lparr>subsegments := subsegments tr @
           [createXRaySubsegment (requestInfoToHostname env (url xhrDetails)) startTime
              \<lparr>http_request = \<lparr>request_method = xhr_method xhrDetails, traced = True\<rparr>,
               http_response = None\<rparr> fresh]\<rparr>)\<rparr>)"

text \<open>The wrapper of \<^verbatim>\<open>send\<close>, called on the request \<open>this\<close>. The original \<^verbatim>\<open>send\<close> is
  called last, in every case.\<close>

definition sendWrapper :: "'e Env \<Rightarrow> real \<Rightarrow> Fresh \<Rightarrow> handle \<Rightarrow> 'e World \<Rightarrow> 'e result" where
  "sendWrapper env now fresh this w =
     (case xhrMap w this of
        None \<Rightarrow> Inr (call (OriginalSend this) w)
      | Some xhrDetails \<Rightarrow>
          (let w1 = addEventListener this ''load'' handleXhrLoadEvent_listener w;
               w2 = addEventListener this ''error'' handleXhrErrorEvent_listener w1;
               w3 = addEventListener this ''abort'' handleXhrAbortEvent_listener w2;
               w4 = addEventListener this ''timeout'' handleXhrTimeoutEvent_listener w3;
               xhrDetails' = initializeTrace env now fresh (config w4) xhrDetails;
               w5 = w4\<lparr>xhrMap := (xhrMap w4)(this \<mapsto> xhrDetails')\<rparr>
           in if isTracingEnabled w5 \<and> this_addXRayTraceIdHeader w5 \<and> isSessionRecorded w5
              then (case trace xhrDetails' of
                      None \<Rightarrow> Inl (TypeError, w5)
                    | Some tr \<Rightarrow>
                        (case subsegments tr of
                           [] \<Rightarrow> Inl (TypeError, w5)
                         | s # ss \<Rightarrow>
                             Inr (call (OriginalSend this)
                                    (setRequestHeader this (X_AMZN_TRACE_ID env)
                                       (getAmznTraceIdHeaderValue env (trace_id tr)
                                          (subsegment_id s)) w5))))
              else Inr (call (OriginalSend this) w5)))"

text \<open>The wrapper of \<^verbatim>\<open>open\<close>, called on the request \<open>this\<close>.\<close>

definition openWrapper ::
  "'e Env \<Rightarrow> handle \<Rightarrow> string \<Rightarrow> string \<Rightarrow> bool \<Rightarrow> 'e World \<Rightarrow> 'e World" where
  "openWrapper env this m u a w =
     call (OriginalOpen this m u a)
       (if isUrlAllowed env u (config w)
        then w\<lparr>xhrMap := (xhrMap w)(this \<mapsto> \<lparr>xhr_method = m, url = u, async = a, trace = None\<rparr>)\<rparr>
        else w)"

text \<open>A request whose \<^verbatim>\<open>send\<close> has started a trace: its record holds a trace with a
  subsegment.\<close>

definition traceStarted :: "'e World \<Rightarrow> handle \<Rightarrow> bool" where
  "traceStarted w this =
     (case xhrMap w this of
        None \<Rightarrow> False
      | Some xhrDetails \<Rightarrow>
          (case trace xhrDetails of None \<Rightarrow> False | Some tr \<Rightarrow> subsegments tr \<noteq> []))"

text \<open>The world a handler leaves, whether it returned or threw.\<close>

definition worldOf :: "'e result \<Rightarrow> 'e World" where
  "worldOf r = (case r of Inl (e, w) \<Rightarrow> w | Inr w \<Rightarrow> w)"

definition returned :: "'e result \<Rightarrow> bool" where
  "returned r = (case r of Inl x \<Rightarrow> False | Inr w \<Rightarrow> True)"

text \<open>The trace of a request and its first subsegment, when there are any.\<close>

definition traceOf :: "'e World \<Rightarrow> handle \<Rightarrow> XRayTraceEvent option" where
  "traceOf w this = (case xhrMap w this of None \<Rightarrow> None | Some xhrDetails \<Rightarrow> trace xhrDetails)"

definition subsegment0 :: "'e World \<Rightarrow> handle \<Rightarrow> Subsegment option" where
  "subsegment0 w this =
     (case traceOf w this of
        None \<Rightarrow> None
      | Some tr \<Rightarrow> (case subsegments tr of [] \<Rightarrow> None | s # ss \<Rightarrow> Some s))"

section \<open>Concrete inputs\<close>

text \<open>A filter that accepts one URL, and a plugin as its constructor and \<^verbatim>\<open>load\<close> leave it:
  an empty map, no call made yet.\<close>

definition exampleEnv :: "(ErrorEvent \<times> nat) Env" where
  "exampleEnv =
     \<lparr>isUrlAllowed = (\<lambda>u cfg. u = ''https://api.example.com/x''),
      requestInfoToHostname =
        (\<lambda>u. if u = ''https://api.example.com/x'' then ''api.example.com''
             else ''other.example.com''),
      X_AMZN_TRACE_ID = ''X-Amzn-Trace-Id'',
      getAmznTraceIdHeaderValue = (\<lambda>t s. ''Root='' @ t @ '';Parent='' @ s @ '';Sampled=1''),
      errorEventToJsErrorEvent = (\<lambda>ev n. (ev, n))\<rparr>"

definition exampleXhr :: "nat \<Rightarrow> string \<Rightarrow> string option \<Rightarrow> XMLHttpRequest" where
  "exampleXhr st txt len =
     \<lparr>status = st, statusText = txt,
      getResponseHeader = (\<lambda>n. if n = ''Content-Length'' then len else None)\<rparr>"

definition exampleWorld ::
  "bool \<Rightarrow> bool \<Rightarrow> bool \<Rightarrow> Session option \<Rightarrow> XMLHttpRequest \<Rightarrow> (ErrorEvent \<times> nat) World" where
  "exampleWorld recordAll addHeader xray session xhr =
     \<lparr>config = \<lparr>logicalServiceName = ''RUM.AWS'', recordAllRequests = recordAll,
                addXRayTraceIdHeader = addHeader, stackTraceLength = 200\<rparr>,
      xhrMap = Map.empty,
      plugin_context = \<lparr>enableXRay = xray, getSession = session\<rparr>,
      host = (\<lambda>h. xhr),
      calls = []\<rparr>"

definition exampleFresh :: Fresh where
  "exampleFresh =
     \<lparr>fresh_segment_id = ''0000000000000001'', fresh_trace_id = ''1-0-000000000000000000000001'',
      fresh_subsegment_id = ''0000000000000002''\<rparr>"

definition recordedSession :: "Session option" where
  "recordedSession = Some \<lparr>session_record = True\<rparr>"

text \<open>\<^verbatim>\<open>open\<close> on the accepted URL, on request 0.\<close>

definition opened :: "(ErrorEvent \<times> nat) World \<Rightarrow> (ErrorEvent \<times> nat) World" where
  "opened w = openWrapper exampleEnv 0 ''GET'' ''https://api.example.com/x'' True w"

text \<open>\<^verbatim>\<open>open\<close> on an accepted URL and then \<^verbatim>\<open>send\<close>, at time 10, on request 0.\<close>

definition openedAndSent :: "(ErrorEvent \<times> nat) World \<Rightarrow> (ErrorEvent \<times> nat) World" where
  "openedAndSent w =
     worldOf (sendWrapper exampleEnv 10 exampleFresh 0
                (openWrapper exampleEnv 0 ''GET'' ''https://api.example.com/x'' True w))"

section \<open>Vocabulary for the properties\<close>

text \<open>The trace as \<open>handleXhrLoadEvent\<close> leaves it, and as the three failure handlers leave
  it; the message of \<open>handleXhrErrorEvent\<close>; the response description of the first
  subsegment of a request. These definitions are used to state results only.\<close>

definition loadedTrace :: "real \<Rightarrow> XMLHttpRequest \<Rightarrow> XRayTraceEvent \<Rightarrow> XRayTraceEvent" where
  "loadedTrace now x tr =
     tr\<lparr>end_time := Some now,
        subsegments :=
          (case subsegments tr of
             [] \<Rightarrow> []
           | s # ss \<Rightarrow>
               s\<lparr>subsegment_end_time := Some now,
                 http := (http s)\<lparr>http_response :=
                   Some \<lparr>response_status = status x,
                         content_length =
                           (if isNaN (parseInt (getResponseHeader x ''Content-Length'')) then None
                            else Some (parseInt (getResponseHeader x ''Content-Length'')))\<rparr>\<rparr>\<rparr>
               # ss)\<rparr>"

definition failedTrace :: "real \<Rightarrow> string \<Rightarrow> string option \<Rightarrow> XRayTraceEvent \<Rightarrow> XRayTraceEvent" where
  "failedTrace now errorName errorMessage tr =
     tr\<lparr>end_time := Some now,
        subsegments :=
          (case subsegments tr of
             [] \<Rightarrow> []
           | s # ss \<Rightarrow>
               s\<lparr>subsegment_end_time := Some now, subsegment_error := Some True,
                 cause := Some \<lparr>exceptions =
                   [\<lparr>exception_type = errorName, exception_message = errorMessage\<rparr>]\<rparr>\<rparr>
               # ss)\<rparr>"

definition xhrErrorMessage :: "XMLHttpRequest \<Rightarrow> string" where
  "xhrErrorMessage x =
     (if statusText x \<noteq> [] then toString (status x) @ '': '' @ statusText x
      else toString (status x))"

definition responseOf :: "'e World \<Rightarrow> handle \<Rightarrow> HttpResponseInfo option" where
  "responseOf w this =
     (case subsegment0 w this of None \<Rightarrow> None | Some s \<Rightarrow> http_response (http s))"

text \<open>Tracing is enabled and the session is recorded, read from the context.\<close>

definition sampledIn :: "'e World \<Rightarrow> bool" where
  "sampledIn w =
     (enableXRay (plugin_context w) \<and>
      (case getSession (plugin_context w) of None \<Rightarrow> False | Some s \<Rightarrow> session_record s))"

definition contentLengthOf :: "'e World \<Rightarrow> handle \<Rightarrow> Number option" where
  "contentLengthOf w this =
     (case responseOf w this of None \<Rightarrow> None | Some r \<Rightarrow> content_length r)"

section \<open>Properties of the operations\<close>

lemma call_fields:
  "calls (call c w) = calls w @ [c]"
  "xhrMap (call c w) = xhrMap w"
  "config (call c w) = config w"
  "plugin_context (call c w) = plugin_context w"
  "host (call c w) = host w"
  by (simp_all add: call_def)

lemma recorded_simps:
  "recorded ty [] = []"
  "recorded ty (c # cs) = (case recordedAs ty c of None \<Rightarrow> recorded ty cs | Some p \<Rightarrow> p # recorded ty cs)"
  "recorded ty (cs @ ds) = recorded ty cs @ recorded ty ds"
  by (simp_all add: recorded_def List.map_filter_def split: option.splits)

lemma setTrace_fields:
  "calls (setTrace h d tr w) = calls w"
  "xhrMap (setTrace h d tr w) = (xhrMap w)(h \<mapsto> d\<lparr>trace := Some tr\<rparr>)"
  "config (setTrace h d tr w) = config w"
  "plugin_context (setTrace h d tr w) = plugin_context w"
  "host (setTrace h d tr w) = host w"
  by (simp_all add: setTrace_def)

lemma sampledIn_iff: "(isTracingEnabled w \<and> isSessionRecorded w) = sampledIn w"
  by (simp add: isTracingEnabled_def isSessionRecorded_def sampledIn_def split: option.splits)

lemma recordTraceEvent_fields:
  "calls (recordTraceEvent tr w) =
     calls w @ (if sampledIn w
                then [ContextRecord XRAY_TRACE_EVENT_TYPE (TracePayload tr)] else [])"
  "xhrMap (recordTraceEvent tr w) = xhrMap w"
  "config (recordTraceEvent tr w) = config w"
  "plugin_context (recordTraceEvent tr w) = plugin_context w"
  "host (recordTraceEvent tr w) = host w"
  by (simp_all add: recordTraceEvent_def context_record_def call_fields sampledIn_iff)

lemma sampledIn_setTrace: "sampledIn (setTrace h d tr w) = sampledIn w"
  by (simp add: sampledIn_def setTrace_fields)

lemma recordHttpEventWithResponse_fields:
  "calls (recordHttpEventWithResponse d xhr w) =
     calls w @ (if recordAllRequests (config w) \<or> \<not> statusOk (status xhr)
                then [ContextRecord HTTP_EVENT_TYPE
                        (HttpPayload \<lparr>version = ''1.0.0'',
                           request = \<lparr>event_method = xhr_method d\<rparr>,
                           response = Some \<lparr>event_status = status xhr,
                                            event_statusText = statusText xhr\<rparr>,
                           error = None\<rparr>)]
                else [])"
  "xhrMap (recordHttpEventWithResponse d xhr w) = xhrMap w"
  "config (recordHttpEventWithResponse d xhr w) = config w"
  "plugin_context (recordHttpEventWithResponse d xhr w) = plugin_context w"
  "host (recordHttpEventWithResponse d xhr w) = host w"
  by (simp_all add: recordHttpEventWithResponse_def context_record_def call_fields)

lemma recordHttpEventWithError_fields:
  "calls (recordHttpEventWithError env d err w) =
     calls w @ [ContextRecord HTTP_EVENT_TYPE
                  (HttpPayload \<lparr>version = ''1.0.0'',
                     request = \<lparr>event_method = xhr_method d\<rparr>,
                     response = None,
                     error = Some (errorEventToJsErrorEvent env
                                     \<lparr>event_type = ''error'', event_error = err\<rparr>
                                     (stackTraceLength (config w)))\<rparr>)]"
  "xhrMap (recordHttpEventWithError env d err w) = xhrMap w"
  "config (recordHttpEventWithError env d err w) = config w"
  "plugin_context (recordHttpEventWithError env d err w) = plugin_context w"
  "host (recordHttpEventWithError env d err w) = host w"
  by (simp_all add: recordHttpEventWithError_def context_record_def call_fields)

lemma handleXhrLoadEvent_started:
  assumes "xhrMap w xhr = Some d" "trace d = Some tr" "subsegments tr \<noteq> []"
  shows "handleXhrLoadEvent env now xhr w =
    Inr (recordHttpEventWithResponse (d\<lparr>trace := Some (loadedTrace now (host w xhr) tr)\<rparr>)
           (host w xhr)
           (recordTraceEvent (loadedTrace now (host w xhr) tr)
              (setTrace xhr d (loadedTrace now (host w xhr) tr) w)))"
  using assms
  by (cases "subsegments tr") (simp_all add: handleXhrLoadEvent_def loadedTrace_def Let_def isNaN_def)

lemma handleXhrErrorEvent_started:
  assumes "xhrMap w xhr = Some d" "trace d = Some tr" "subsegments tr \<noteq> []"
  shows "handleXhrErrorEvent env now xhr w =
    Inr (recordHttpEventWithError env
           (d\<lparr>trace := Some (failedTrace now ''XMLHttpRequest error''
                               (Some (xhrErrorMessage (host w xhr))) tr)\<rparr>)
           (XhrError (xhrErrorMessage (host w xhr)))
           (recordTraceEvent
              (failedTrace now ''XMLHttpRequest error'' (Some (xhrErrorMessage (host w xhr))) tr)
              (setTrace xhr d
                 (failedTrace now ''XMLHttpRequest error''
                    (Some (xhrErrorMessage (host w xhr))) tr) w)))"
  using assms
  by (cases "subsegments tr")
     (simp_all add: handleXhrErrorEvent_def failedTrace_def xhrErrorMessage_def Let_def)

lemma handleXhrAbortEvent_started:
  assumes "xhrMap w xhr = Some d" "trace d = Some tr" "subsegments tr \<noteq> []"
  shows "handleXhrAbortEvent env now xhr w =
    Inr (recordHttpEventWithError env
           (d\<lparr>trace := Some (failedTrace now ''XMLHttpRequest abort'' None tr)\<rparr>)
           (ErrorString ''XMLHttpRequest abort'')
           (recordTraceEvent (failedTrace now ''XMLHttpRequest abort'' None tr)
              (setTrace xhr d (failedTrace now ''XMLHttpRequest abort'' None tr) w)))"
  using assms
  by (cases "subsegments tr") (simp_all add: handleXhrAbortEvent_def failedTrace_def Let_def)

lemma handleXhrTimeoutEvent_started:
  assumes "xhrMap w xhr = Some d" "trace d = Some tr" "subsegments tr \<noteq> []"
  shows "handleXhrTimeoutEvent env now xhr w =
    Inr (recordHttpEventWithError env
           (d\<lparr>trace := Some (failedTrace now ''XMLHttpRequest timeout'' None tr)\<rparr>)
           (ErrorString ''XMLHttpRequest timeout'')
           (recordTraceEvent (failedTrace now ''XMLHttpRequest timeout'' None tr)
              (setTrace xhr d (failedTrace now ''XMLHttpRequest timeout'' None tr) w)))"
  using assms
  by (cases "subsegments tr") (simp_all add: handleXhrTimeoutEvent_def failedTrace_def Let_def)

lemma sendWrapper_tracked:
  assumes "xhrMap w this = Some d"
  shows "sendWrapper env now fresh this w =
    Inr (w\<lparr>xhrMap := (xhrMap w)(this \<mapsto> initializeTrace env now fresh (config w) d),
           calls := calls w @
             [AddEventListener this ''load'' handleXhrLoadEvent_listener,
              AddEventListener this ''error'' handleXhrErrorEvent_listener,
              AddEventListener this ''abort'' handleXhrAbortEvent_listener,
              AddEventListener this ''timeout'' handleXhrTimeoutEvent_listener] @
             (if enableXRay (plugin_context w) \<and> addXRayTraceIdHeader (config w) \<and>
                 (\<exists>s. getSession (plugin_context w) = Some s \<and> session_record s)
              then [SetRequestHeader this (X_AMZN_TRACE_ID env)
                      (getAmznTraceIdHeaderValue env (fresh_trace_id fresh)
                         (fresh_subsegment_id fresh))]
              else []) @
             [OriginalSend this]\<rparr>)"
  using assms
  by (auto simp: sendWrapper_def Let_def addEventListener_def setRequestHeader_def call_def
      initializeTrace_def createXRayTraceEvent_def createXRaySubsegment_def
      isTracingEnabled_def isSessionRecorded_def this_addXRayTraceIdHeader_def
      split: option.splits)

lemma sendWrapper_untracked:
  "xhrMap w this = None \<Longrightarrow> sendWrapper env now fresh this w = Inr (call (OriginalSend this) w)"
  by (simp add: sendWrapper_def)

lemma initializeTrace_trace:
  "trace (initializeTrace env now fresh cfg d) =
     Some \<lparr>segment_name = logicalServiceName cfg, segment_id = fresh_segment_id fresh,
           trace_id = fresh_trace_id fresh, start_time = now, end_time = None,
           subsegments =
             [\<lparr>subsegment_id = fresh_subsegment_id fresh,
               subsegment_name = requestInfoToHostname env (url d),
               subsegment_start_time = now, subsegment_end_time = None,
               http = \<lparr>http_request = \<lparr>request_method = xhr_method d, traced = True\<rparr>,
                       http_response = None\<rparr>,
               subsegment_error = None, cause = None\<rparr>]\<rparr>"
  by (simp add: initializeTrace_def createXRayTraceEvent_def createXRaySubsegment_def Let_def)

lemma loadedTrace_end: "end_time (loadedTrace now x tr) = Some now"
  by (simp add: loadedTrace_def)

lemma failedTrace_end: "end_time (failedTrace now n m tr) = Some now"
  by (simp add: failedTrace_def)

lemma load_emits:
  assumes "xhrMap w xhr = Some d" "trace d = Some tr" "subsegments tr \<noteq> []"
  shows "returned (handleXhrLoadEvent env now xhr w) \<and>
     xhrMap (worldOf (handleXhrLoadEvent env now xhr w)) =
       (xhrMap w)(xhr \<mapsto> d\<lparr>trace := Some (loadedTrace now (host w xhr) tr)\<rparr>) \<and>
     emitted w (worldOf (handleXhrLoadEvent env now xhr w)) =
       (if sampledIn w
        then [ContextRecord XRAY_TRACE_EVENT_TYPE (TracePayload (loadedTrace now (host w xhr) tr))]
        else []) @
       (if recordAllRequests (config w) \<or> \<not> statusOk (status (host w xhr))
        then [ContextRecord HTTP_EVENT_TYPE
                (HttpPayload \<lparr>version = ''1.0.0'',
                   request = \<lparr>event_method = xhr_method d\<rparr>,
                   response = Some \<lparr>event_status = status (host w xhr),
                                    event_statusText = statusText (host w xhr)\<rparr>,
                   error = None\<rparr>)]
        else [])"
  using assms
  by (simp add: handleXhrLoadEvent_started [OF assms] returned_def worldOf_def
        emitted_def recordHttpEventWithResponse_fields recordTraceEvent_fields setTrace_fields
        sampledIn_setTrace)

lemma failure_emits:
  assumes "xhrMap w xhr = Some d" "trace d = Some tr" "subsegments tr \<noteq> []"
    and "r = Inr (recordHttpEventWithError env (d\<lparr>trace := Some T\<rparr>) err
                    (recordTraceEvent T (setTrace xhr d T w)))"
  shows "returned r \<and>
     xhrMap (worldOf r) = (xhrMap w)(xhr \<mapsto> d\<lparr>trace := Some T\<rparr>) \<and>
     emitted w (worldOf r) =
       (if sampledIn w then [ContextRecord XRAY_TRACE_EVENT_TYPE (TracePayload T)] else []) @
       [ContextRecord HTTP_EVENT_TYPE
          (HttpPayload \<lparr>version = ''1.0.0'',
             request = \<lparr>event_method = xhr_method d\<rparr>,
             response = None,
             error = Some (errorEventToJsErrorEvent env
                             \<lparr>event_type = ''error'', event_error = err\<rparr>
                             (stackTraceLength (config w)))\<rparr>)]"
  using assms
  by (simp add: returned_def worldOf_def emitted_def recordHttpEventWithError_fields
      recordTraceEvent_fields setTrace_fields sampledIn_setTrace)


lemma timeout_emits:
  assumes "xhrMap w xhr = Some d" "trace d = Some tr" "subsegments tr \<noteq> []"
  shows "returned (handleXhrTimeoutEvent env now xhr w) \<and>
     xhrMap (worldOf (handleXhrTimeoutEvent env now xhr w)) =
       (xhrMap w)(xhr \<mapsto> d\<lparr>trace := Some (failedTrace now ''XMLHttpRequest timeout'' None tr)\<rparr>) \<and>
     emitted w (worldOf (handleXhrTimeoutEvent env now xhr w)) =
       (if sampledIn w
        then [ContextRecord XRAY_TRACE_EVENT_TYPE
                (TracePayload (failedTrace now ''XMLHttpRequest timeout'' None tr))]
        else []) @
       [ContextRecord HTTP_EVENT_TYPE
          (HttpPayload \<lparr>version = ''1.0.0'',
             request = \<lparr>event_method = xhr_method d\<rparr>,
             response = None,
             error = Some (errorEventToJsErrorEvent env
                             \<lparr>event_type = ''error'',
                              event_error = ErrorString ''XMLHttpRequest timeout''\<rparr>
                             (stackTraceLength (config w)))\<rparr>)]"
  by (rule failure_emits [OF assms handleXhrTimeoutEvent_started [OF assms]])

lemma abort_emits:
  assumes "xhrMap w xhr = Some d" "trace d = Some tr" "subsegments tr \<noteq> []"
  shows "returned (handleXhrAbortEvent env now xhr w) \<and>
     xhrMap (worldOf (handleXhrAbortEvent env now xhr w)) =
       (xhrMap w)(xhr \<mapsto> d\<lparr>trace := Some (failedTrace now ''XMLHttpRequest abort'' None tr)\<rparr>) \<and>
     emitted w (worldOf (handleXhrAbortEvent env now xhr w)) =
       (if sampledIn w
        then [ContextRecord XRAY_TRACE_EVENT_TYPE
                (TracePayload (failedTrace now ''XMLHttpRequest abort'' None tr))]
        else []) @
       [ContextRecord HTTP_EVENT_TYPE
          (HttpPayload \<lparr>version = ''1.0.0'',
             request = \<lparr>event_method = xhr_method d\<rparr>,
             response = None,
             error = Some (errorEventToJsErrorEvent env
                             \<lparr>event_type = ''error'',
                              event_error = ErrorString ''XMLHttpRequest abort''\<rparr>
                             (stackTraceLength (config w)))\<rparr>)]"
  by (rule failure_emits [OF assms handleXhrAbortEvent_started [OF assms]])

lemma error_emits:
  assumes "xhrMap w xhr = Some d" "trace d = Some tr" "subsegments tr \<noteq> []"
  shows "returned (handleXhrErrorEvent env now xhr w) \<and>
     xhrMap (worldOf (handleXhrErrorEvent env now xhr w)) =
       (xhrMap w)(xhr \<mapsto> d\<lparr>trace := Some (failedTrace now ''XMLHttpRequest error''
                                            (Some (xhrErrorMessage (host w xhr))) tr)\<rparr>) \<and>
     emitted w (worldOf (handleXhrErrorEvent env now xhr w)) =
       (if sampledIn w
        then [ContextRecord XRAY_TRACE_EVENT_TYPE
                (TracePayload (failedTrace now ''XMLHttpRequest error''
                                 (Some (xhrErrorMessage (host w xhr))) tr))]
        else []) @
       [ContextRecord HTTP_EVENT_TYPE
          (HttpPayload \<lparr>version = ''1.0.0'',
             request = \<lparr>event_method = xhr_method d\<rparr>,
             response = None,
             error = Some (errorEventToJsErrorEvent env
                             \<lparr>event_type = ''error'',
                              event_error = XhrError (xhrErrorMessage (host w xhr))\<rparr>
                             (stackTraceLength (config w)))\<rparr>)]"
  by (rule failure_emits [OF assms handleXhrErrorEvent_started [OF assms]])

lemma traceStartedD:
  "traceStarted w xhr \<Longrightarrow>
   \<exists>d tr. xhrMap w xhr = Some d \<and> trace d = Some tr \<and> subsegments tr \<noteq> []"
  by (auto simp: traceStarted_def split: option.splits)

lemma filtered_simps:
  "headersSet h [] = []"
  "headersSet h (c # cs) = (case headerSet h c of None \<Rightarrow> headersSet h cs | Some p \<Rightarrow> p # headersSet h cs)"
  "headersSet h (cs @ ds) = headersSet h cs @ headersSet h ds"
  "listenersAdded h [] = []"
  "listenersAdded h (c # cs) = (case listenerAdded h c of None \<Rightarrow> listenersAdded h cs | Some p \<Rightarrow> p # listenersAdded h cs)"
  "listenersAdded h (cs @ ds) = listenersAdded h cs @ listenersAdded h ds"
  by (simp_all add: headersSet_def listenersAdded_def List.map_filter_def split: option.splits)

lemma not_white_space:
  "\<not> isStrWhiteSpaceChar CHR ''+''" "\<not> isStrWhiteSpaceChar CHR ''-''"
  "isDecimalDigit c \<Longrightarrow> \<not> isStrWhiteSpaceChar c"
  by (auto simp: isStrWhiteSpaceChar_def isDecimalDigit_def)

lemma not_sign: "isDecimalDigit c \<Longrightarrow> c \<noteq> CHR ''+'' \<and> c \<noteq> CHR ''-''"
  by (auto simp: isDecimalDigit_def)

lemma toNumber_not_NaN: "toNumber sign m \<noteq> NaN"
  by (simp add: toNumber_def)

lemma parseInt_defined_iff:
  "parseInt (Some s) \<noteq> NaN \<longleftrightarrow>
     (\<exists>ws sg dg rest. s = ws @ sg @ dg # rest \<and> (\<forall>c\<in>set ws. isStrWhiteSpaceChar c) \<and>
        sg \<in> {[], ''+'', ''-''} \<and> isDecimalDigit dg)"
proof
  assume a: "parseInt (Some s) \<noteq> NaN"
  define S where "S = dropWhile isStrWhiteSpaceChar s"
  define S' where "S' = (if S \<noteq> [] \<and> (hd S = CHR ''+'' \<or> hd S = CHR ''-'') then tl S else S)"
  from a have z: "takeWhile isDecimalDigit S' \<noteq> []"
    by (auto simp: parseInt_def ToString_def Let_def S_def S'_def split: if_splits)
  then obtain dg rest where r: "S' = dg # rest" "isDecimalDigit dg"
    by (cases S') (auto split: if_splits)
  have s: "s = takeWhile isStrWhiteSpaceChar s @ S"
    by (simp add: S_def)
  have w: "\<forall>c\<in>set (takeWhile isStrWhiteSpaceChar s). isStrWhiteSpaceChar c"
    by (auto dest: set_takeWhileD)
  have "\<exists>sg. sg \<in> {[], ''+'', ''-''} \<and> S = sg @ S'"
  proof (cases "S \<noteq> [] \<and> (hd S = CHR ''+'' \<or> hd S = CHR ''-'')")
    case True
    then have "S = [hd S] @ S'" by (simp add: S'_def)
    with True show ?thesis by (metis insert_iff)
  next
    case False
    then have "S' = S" by (auto simp: S'_def)
    then have "S = [] @ S'" by simp
    then show ?thesis by blast
  qed
  then obtain sg where g: "sg \<in> {[], ''+'', ''-''}" "S = sg @ S'" by blast
  from s g(2) r(1) have "s = takeWhile isStrWhiteSpaceChar s @ sg @ dg # rest" by simp
  with w g(1) r(2) show "\<exists>ws sg dg rest. s = ws @ sg @ dg # rest \<and>
      (\<forall>c\<in>set ws. isStrWhiteSpaceChar c) \<and> sg \<in> {[], ''+'', ''-''} \<and> isDecimalDigit dg"
    by blast
next
  assume "\<exists>ws sg dg rest. s = ws @ sg @ dg # rest \<and> (\<forall>c\<in>set ws. isStrWhiteSpaceChar c) \<and>
        sg \<in> {[], ''+'', ''-''} \<and> isDecimalDigit dg"
  then obtain ws sg dg rest where h: "s = ws @ sg @ dg # rest"
    "\<forall>c\<in>set ws. isStrWhiteSpaceChar c" "sg \<in> {[], ''+'', ''-''}" "isDecimalDigit dg"
    by blast
  have d: "dropWhile isStrWhiteSpaceChar s = sg @ dg # rest"
    using h by (auto simp: dropWhile_append not_white_space)
  show "parseInt (Some s) \<noteq> NaN"
    using h(3,4) not_sign [OF h(4)]
    by (auto simp: parseInt_def ToString_def Let_def d toNumber_not_NaN)
qed

lemma parseInt_signed_digits:
  assumes "sg \<in> {[], ''+'', ''-''}" and "ds \<noteq> []" and "\<forall>c\<in>set ds. isDecimalDigit c"
  shows "parseInt (Some (sg @ ds)) = toNumber (if sg = ''-'' then - 1 else 1) (mathInt ds)"
proof -
  have dg: "isDecimalDigit (hd ds)"
    using assms(2,3) by (cases ds) simp_all
  have ns: "hd ds \<noteq> CHR ''+''" "hd ds \<noteq> CHR ''-''"
    using not_sign [OF dg] by simp_all
  have nw: "\<not> isStrWhiteSpaceChar (hd ds)"
    by (rule not_white_space(3) [OF dg])
  have t: "takeWhile isDecimalDigit ds = ds"
    using assms(3) by (simp add: takeWhile_eq_all_conv)
  have d0: "dropWhile isStrWhiteSpaceChar ds = ds"
    using nw assms(2) by (cases ds) simp_all
  from assms(1) consider "sg = []" | "sg = ''+''" | "sg = ''-''" by auto
  then show ?thesis
  proof cases
    case 1
    then show ?thesis
      using assms(2) ns by (simp add: parseInt_def ToString_def Let_def d0 t)
  next
    case 2
    then show ?thesis
      using assms(2) by (simp add: parseInt_def ToString_def Let_def not_white_space(1) t)
  next
    case 3
    then show ?thesis
      using assms(2) by (simp add: parseInt_def ToString_def Let_def not_white_space(2) t)
  qed
qed

lemma parseInt_null: "parseInt None = NaN"
  by (simp add: parseInt_def ToString_def isStrWhiteSpaceChar_def isDecimalDigit_def)

lemma openWrapper_fields:
  "xhrMap (openWrapper env this m u a w) =
     (if isUrlAllowed env u (config w)
      then (xhrMap w)(this \<mapsto> \<lparr>xhr_method = m, url = u, async = a, trace = None\<rparr>)
      else xhrMap w)"
  "config (openWrapper env this m u a w) = config w"
  "plugin_context (openWrapper env this m u a w) = plugin_context w"
  "host (openWrapper env this m u a w) = host w"
  "calls (openWrapper env this m u a w) = calls w @ [OriginalOpen this m u a]"
  by (simp_all add: openWrapper_def call_fields)

lemma openedAndSent_fields:
  "xhrMap (openedAndSent w) 0 =
     Some (initializeTrace exampleEnv 10 exampleFresh (config w)
             \<lparr>xhr_method = ''GET'', url = ''https://api.example.com/x'', async = True, trace = None\<rparr>)"
  "config (openedAndSent w) = config w"
  "plugin_context (openedAndSent w) = plugin_context w"
  "host (openedAndSent w) = host w"
  by (simp_all add: openedAndSent_def openWrapper_def exampleEnv_def call_fields
      sendWrapper_tracked [where d = "\<lparr>xhr_method = ''GET'', url = ''https://api.example.com/x'', async = True, trace = None\<rparr>"]
      worldOf_def)

lemma traceStarted_openedAndSent: "traceStarted (openedAndSent w) 0"
  by (simp add: traceStarted_def openedAndSent_fields initializeTrace_trace)

lemma opened_fields:
  "xhrMap (opened w) 0 =
     Some \<lparr>xhr_method = ''GET'', url = ''https://api.example.com/x'', async = True, trace = None\<rparr>"
  "config (opened w) = config w"
  "plugin_context (opened w) = plugin_context w"
  "host (opened w) = host w"
  by (simp_all add: opened_def openWrapper_fields exampleEnv_def)

lemma openWrapper_rejected:
  "\<not> isUrlAllowed env u (config w) \<Longrightarrow> xhrMap (openWrapper env this m u a w) = xhrMap w"
  by (simp add: openWrapper_fields)

lemma rejected_open_then_send_uninstrumented:
  assumes "xhrMap w this = None" and "\<not> isUrlAllowed env u (config w)"
  shows "sendWrapper env now fresh this (openWrapper env this m u a w) =
     Inr (call (OriginalSend this) (call (OriginalOpen this m u a) w))"
  using assms by (simp add: openWrapper_def sendWrapper_untracked call_fields)

lemma openedAndSent_trace:
  "trace (initializeTrace exampleEnv 10 exampleFresh (config w)
            \<lparr>xhr_method = ''GET'', url = ''https://api.example.com/x'', async = True, trace = None\<rparr>) =
     Some \<lparr>segment_name = logicalServiceName (config w), segment_id = ''0000000000000001'',
           trace_id = ''1-0-000000000000000000000001'', start_time = 10, end_time = None,
           subsegments =
             [\<lparr>subsegment_id = ''0000000000000002'', subsegment_name = ''api.example.com'',
               subsegment_start_time = 10, subsegment_end_time = None,
               http = \<lparr>http_request = \<lparr>request_method = ''GET'', traced = True\<rparr>,
                       http_response = None\<rparr>,
               subsegment_error = None, cause = None\<rparr>]\<rparr>"
  by (simp add: initializeTrace_trace exampleEnv_def exampleFresh_def)

lemma openWrapper_twice_accepted:
  assumes "isUrlAllowed env u2 (config w)"
  shows "xhrMap (openWrapper env this m2 u2 a2 (openWrapper env this m1 u1 a1 w)) =
     (xhrMap w)(this \<mapsto> \<lparr>xhr_method = m2, url = u2, async = a2, trace = None\<rparr>)"
  using assms by (simp add: openWrapper_fields)

section \<open>The claims\<close>

text \<open>C1. A tracked request whose trace was started completes with the \<^verbatim>\<open>load\<close> event. The
  handler returns. When the status is at least 200 and below 300, the HTTP event is recorded
  if and only if \<open>recordAllRequests\<close> is set, and otherwise nothing is recorded under the HTTP
  event type; when the status is outside that range the HTTP event is recorded, whatever the
  flag. The event carries the method of the record and the status and status text of the
  request.\<close>

theorem http_summary_on_load_iff:
  assumes "xhrMap w xhr = Some d" and "traceStarted w xhr"
  shows "returned (handleXhrLoadEvent env now xhr w) \<and>
    (let evs = recorded HTTP_EVENT_TYPE
                 (emitted w (worldOf (handleXhrLoadEvent env now xhr w)));
         ev = HttpPayload \<lparr>version = ''1.0.0'',
                request = \<lparr>event_method = xhr_method d\<rparr>,
                response = Some \<lparr>event_status = status (host w xhr),
                                 event_statusText = statusText (host w xhr)\<rparr>,
                error = None\<rparr>
     in (200 \<le> status (host w xhr) \<and> status (host w xhr) < 300 \<longrightarrow>
           (evs = [ev] \<longleftrightarrow> recordAllRequests (config w)) \<and>
           (evs = [] \<longleftrightarrow> \<not> recordAllRequests (config w))) \<and>
        (\<not> (200 \<le> status (host w xhr) \<and> status (host w xhr) < 300) \<longrightarrow> evs = [ev]))"
proof -
  from assms obtain tr
    where h: "xhrMap w xhr = Some d" "trace d = Some tr" "subsegments tr \<noteq> []"
    using traceStartedD by fastforce
  from load_emits [OF h, of env now] show ?thesis
    by (auto simp: Let_def recorded_simps statusOk_def split: if_splits)
qed

theorem http_summary_on_load_iff_witness:
  "recorded HTTP_EVENT_TYPE
     (emitted (openedAndSent (exampleWorld False False False None (exampleXhr 200 ''OK'' None)))
        (worldOf (handleXhrLoadEvent exampleEnv 12 0
           (openedAndSent (exampleWorld False False False None (exampleXhr 200 ''OK'' None)))))) = [] \<and>
   recorded HTTP_EVENT_TYPE
     (emitted (openedAndSent (exampleWorld False False False None (exampleXhr 500 ''Internal Server Error'' None)))
        (worldOf (handleXhrLoadEvent exampleEnv 12 0
           (openedAndSent (exampleWorld False False False None
              (exampleXhr 500 ''Internal Server Error'' None)))))) =
     [HttpPayload \<lparr>version = ''1.0.0'', request = \<lparr>event_method = ''GET''\<rparr>,
        response = Some \<lparr>event_status = 500, event_statusText = ''Internal Server Error''\<rparr>,
        error = None\<rparr>]"
  using
    http_summary_on_load_iff [OF openedAndSent_fields(1) traceStarted_openedAndSent,
        where w1 = "exampleWorld False False False None (exampleXhr 200 ''OK'' None)"
          and env = exampleEnv and now = 12]
    http_summary_on_load_iff [OF openedAndSent_fields(1) traceStarted_openedAndSent,
        where w1 = "exampleWorld False False False None (exampleXhr 500 ''Internal Server Error'' None)"
          and env = exampleEnv and now = 12]
  by (simp add: Let_def openedAndSent_fields exampleWorld_def exampleXhr_def initializeTrace_def)

text \<open>C2. \<open>recordTraceEvent\<close> forwards the trace to \<^verbatim>\<open>context.record\<close> if and only if
  \<^verbatim>\<open>enableXRay\<close> is set and the session exists and is recorded; it changes nothing else.
  When tracing is off, when \<^verbatim>\<open>getSession()\<close> answers \<^verbatim>\<open>undefined\<close>, or when the session is
  not recorded, the world is left as it was: the trace is dropped. For each of the four
  handlers, on a request whose trace was started, the trace events recorded are the finished
  trace of the request (its end time set) when both conditions hold, and none otherwise.\<close>

theorem trace_event_iff_tracing_and_session_recorded:
  "recordTraceEvent tr w =
     w\<lparr>calls := calls w @
         (if enableXRay (plugin_context w) \<and>
             (\<exists>s. getSession (plugin_context w) = Some s \<and> session_record s)
          then [ContextRecord XRAY_TRACE_EVENT_TYPE (TracePayload tr)] else [])\<rparr> \<and>
   (\<not> enableXRay (plugin_context w) \<or> getSession (plugin_context w) = None \<or>
    getSession (plugin_context w) = Some \<lparr>session_record = False\<rparr> \<longrightarrow>
      recordTraceEvent tr w = w) \<and>
   (traceStarted w xhr \<and>
    H \<in> {handleXhrLoadEvent, handleXhrErrorEvent, handleXhrAbortEvent, handleXhrTimeoutEvent} \<longrightarrow>
      (\<exists>T. H env now xhr w = Inr (worldOf (H env now xhr w)) \<and>
           traceOf (worldOf (H env now xhr w)) xhr = Some T \<and> end_time T = Some now \<and>
           recorded XRAY_TRACE_EVENT_TYPE (emitted w (worldOf (H env now xhr w))) =
             (if enableXRay (plugin_context w) \<and>
                 (\<exists>s. getSession (plugin_context w) = Some s \<and> session_record s)
              then [TracePayload T] else [])))"
proof (intro conjI impI)
  show "recordTraceEvent tr w =
     w\<lparr>calls := calls w @
         (if enableXRay (plugin_context w) \<and>
             (\<exists>s. getSession (plugin_context w) = Some s \<and> session_record s)
          then [ContextRecord XRAY_TRACE_EVENT_TYPE (TracePayload tr)] else [])\<rparr>"
    by (auto simp: recordTraceEvent_def context_record_def call_def isTracingEnabled_def
        isSessionRecorded_def split: option.splits)
next
  assume "\<not> enableXRay (plugin_context w) \<or> getSession (plugin_context w) = None \<or>
    getSession (plugin_context w) = Some \<lparr>session_record = False\<rparr>"
  then show "recordTraceEvent tr w = w"
    by (auto simp: recordTraceEvent_def isSessionRecorded_def isTracingEnabled_def)
next
  assume a: "traceStarted w xhr \<and>
    H \<in> {handleXhrLoadEvent, handleXhrErrorEvent, handleXhrAbortEvent, handleXhrTimeoutEvent}"
  then obtain d tr0 where h: "xhrMap w xhr = Some d" "trace d = Some tr0" "subsegments tr0 \<noteq> []"
    using traceStartedD by blast
  have s: "sampledIn w = (enableXRay (plugin_context w) \<and>
             (\<exists>s. getSession (plugin_context w) = Some s \<and> session_record s))"
    by (auto simp: sampledIn_def split: option.splits)
  from a consider "H = handleXhrLoadEvent" | "H = handleXhrErrorEvent"
    | "H = handleXhrAbortEvent" | "H = handleXhrTimeoutEvent" by auto
  then show "\<exists>T. H env now xhr w = Inr (worldOf (H env now xhr w)) \<and>
           traceOf (worldOf (H env now xhr w)) xhr = Some T \<and> end_time T = Some now \<and>
           recorded XRAY_TRACE_EVENT_TYPE (emitted w (worldOf (H env now xhr w))) =
             (if enableXRay (plugin_context w) \<and>
                 (\<exists>s. getSession (plugin_context w) = Some s \<and> session_record s)
              then [TracePayload T] else [])"
  proof cases
    case 1
    with load_emits [OF h, of env now] show ?thesis
      unfolding s [symmetric]
      by (auto simp: returned_def worldOf_def traceOf_def loadedTrace_end recorded_simps
          split: sum.splits)
  next
    case 2
    with error_emits [OF h, of env now] show ?thesis
      unfolding s [symmetric]
      by (auto simp: returned_def worldOf_def traceOf_def failedTrace_end recorded_simps
          split: sum.splits)
  next
    case 3
    with abort_emits [OF h, of env now] show ?thesis
      unfolding s [symmetric]
      by (auto simp: returned_def worldOf_def traceOf_def failedTrace_end recorded_simps
          split: sum.splits)
  next
    case 4
    with timeout_emits [OF h, of env now] show ?thesis
      unfolding s [symmetric]
      by (auto simp: returned_def worldOf_def traceOf_def failedTrace_end recorded_simps
          split: sum.splits)
  qed
qed

theorem trace_event_iff_tracing_and_session_recorded_witness:
  "length (recorded XRAY_TRACE_EVENT_TYPE
     (emitted (openedAndSent (exampleWorld False False True recordedSession (exampleXhr 0 [] None)))
        (worldOf (handleXhrAbortEvent exampleEnv 12 0
           (openedAndSent (exampleWorld False False True recordedSession (exampleXhr 0 [] None))))))) = 1 \<and>
   recordTraceEvent (createXRayTraceEvent ''RUM.AWS'' 10 exampleFresh)
     (exampleWorld False False True None (exampleXhr 0 [] None)) =
   exampleWorld False False True None (exampleXhr 0 [] None)"
proof -
  have a: "\<exists>T. recorded XRAY_TRACE_EVENT_TYPE
     (emitted (openedAndSent (exampleWorld False False True recordedSession (exampleXhr 0 [] None)))
        (worldOf (handleXhrAbortEvent exampleEnv 12 0
           (openedAndSent (exampleWorld False False True recordedSession (exampleXhr 0 [] None)))))) =
      [TracePayload T]"
    using trace_event_iff_tracing_and_session_recorded [where w = "openedAndSent (exampleWorld False False True recordedSession (exampleXhr 0 [] None))"
          and xhr = 0 and H = handleXhrAbortEvent and env = exampleEnv and now = 12,
          THEN conjunct2, THEN conjunct2]
    by (auto simp: traceStarted_openedAndSent openedAndSent_fields exampleWorld_def
        recordedSession_def)
  have b: "recordTraceEvent (createXRayTraceEvent ''RUM.AWS'' 10 exampleFresh)
     (exampleWorld False False True None (exampleXhr 0 [] None)) =
     exampleWorld False False True None (exampleXhr 0 [] None)"
    using trace_event_iff_tracing_and_session_recorded [where w = "exampleWorld False False True None (exampleXhr 0 [] None)"
          and tr = "createXRayTraceEvent ''RUM.AWS'' 10 exampleFresh",
          THEN conjunct2, THEN conjunct1]
    by (simp add: exampleWorld_def)
  from a b show ?thesis by auto
qed

text \<open>C3. For a request with a record, \<^verbatim>\<open>send\<close> returns and calls \<^verbatim>\<open>setRequestHeader\<close> on the
  request exactly once, with the trace header, when \<^verbatim>\<open>enableXRay\<close>, \<^verbatim>\<open>addXRayTraceIdHeader\<close>
  and a recorded session all hold, and not at all otherwise. The headers set are the same
  whatever the value of \<open>recordAllRequests\<close>.\<close>

theorem trace_header_iff_three_flags:
  assumes "xhrMap w this = Some d"
  shows "returned (sendWrapper env now fresh this w) \<and>
    headersSet this (emitted w (worldOf (sendWrapper env now fresh this w))) =
      (if enableXRay (plugin_context w) \<and> addXRayTraceIdHeader (config w) \<and>
          (\<exists>s. getSession (plugin_context w) = Some s \<and> session_record s)
       then [(X_AMZN_TRACE_ID env,
              getAmznTraceIdHeaderValue env (fresh_trace_id fresh) (fresh_subsegment_id fresh))]
       else []) \<and>
    headersSet this
      (emitted (w\<lparr>config := (config w)\<lparr>recordAllRequests := b\<rparr>\<rparr>)
         (worldOf (sendWrapper env now fresh this
                     (w\<lparr>config := (config w)\<lparr>recordAllRequests := b\<rparr>\<rparr>)))) =
    headersSet this (emitted w (worldOf (sendWrapper env now fresh this w)))"
proof -
  have m: "xhrMap (w\<lparr>config := (config w)\<lparr>recordAllRequests := b\<rparr>\<rparr>) this = Some d"
    using assms by simp
  show ?thesis
    by (simp add: sendWrapper_tracked [OF assms] sendWrapper_tracked [OF m]
        returned_def worldOf_def emitted_def filtered_simps)
qed

theorem trace_header_iff_three_flags_witness:
  "headersSet 0
     (emitted (opened (exampleWorld False True True recordedSession (exampleXhr 0 [] None)))
        (worldOf (sendWrapper exampleEnv 10 exampleFresh 0
           (opened (exampleWorld False True True recordedSession (exampleXhr 0 [] None)))))) =
     [(''X-Amzn-Trace-Id'',
       ''Root=1-0-000000000000000000000001;Parent=0000000000000002;Sampled=1'')] \<and>
   headersSet 0
     (emitted (opened (exampleWorld True False True recordedSession (exampleXhr 0 [] None)))
        (worldOf (sendWrapper exampleEnv 10 exampleFresh 0
           (opened (exampleWorld True False True recordedSession (exampleXhr 0 [] None)))))) = []"
  using
    trace_header_iff_three_flags [OF opened_fields(1), where w1 = "exampleWorld False True True recordedSession (exampleXhr 0 [] None)"
          and env = exampleEnv and now = 10 and fresh = exampleFresh]
    trace_header_iff_three_flags [OF opened_fields(1), where w1 = "exampleWorld True False True recordedSession (exampleXhr 0 [] None)"
          and env = exampleEnv and now = 10 and fresh = exampleFresh]
  by (simp add: opened_fields exampleWorld_def recordedSession_def exampleEnv_def exampleFresh_def)

text \<open>C4, amended. After \<^verbatim>\<open>load\<close> on a request whose trace was started, the response of the
  subsegment carries the status, and \<open>content_length\<close> is attached exactly when \<^verbatim>\<open>parseInt\<close>
  of the \<^verbatim>\<open>Content-Length\<close> header is not \<^verbatim>\<open>NaN\<close>: it is absent when the header is absent,
  and it is present exactly when the header, after leading white space and at most one sign,
  begins with a decimal digit. It is never \<^verbatim>\<open>NaN\<close>. What is attached is the number that
  \<^verbatim>\<open>parseInt\<close> returns; for a header made of an optional sign and decimal digits it is the
  number for the signed integer, negative after a minus sign.\<close>

theorem content_length_is_parseInt:
  assumes "traceStarted w xhr"
  shows "returned (handleXhrLoadEvent env now xhr w) \<and>
    responseOf (worldOf (handleXhrLoadEvent env now xhr w)) xhr =
      Some \<lparr>response_status = status (host w xhr),
            content_length =
              (if parseInt (getResponseHeader (host w xhr) ''Content-Length'') = NaN then None
               else Some (parseInt (getResponseHeader (host w xhr) ''Content-Length'')))\<rparr> \<and>
    contentLengthOf (worldOf (handleXhrLoadEvent env now xhr w)) xhr \<noteq> Some NaN \<and>
    (getResponseHeader (host w xhr) ''Content-Length'' = None \<longrightarrow>
       contentLengthOf (worldOf (handleXhrLoadEvent env now xhr w)) xhr = None) \<and>
    (contentLengthOf (worldOf (handleXhrLoadEvent env now xhr w)) xhr \<noteq> None \<longleftrightarrow>
       (\<exists>ws sg dg rest.
          getResponseHeader (host w xhr) ''Content-Length'' = Some (ws @ sg @ dg # rest) \<and>
          (\<forall>c\<in>set ws. isStrWhiteSpaceChar c) \<and> sg \<in> {[], ''+'', ''-''} \<and> isDecimalDigit dg)) \<and>
    (\<forall>sg ds. getResponseHeader (host w xhr) ''Content-Length'' = Some (sg @ ds) \<and>
        sg \<in> {[], ''+'', ''-''} \<and> ds \<noteq> [] \<and> (\<forall>c\<in>set ds. isDecimalDigit c) \<longrightarrow>
        contentLengthOf (worldOf (handleXhrLoadEvent env now xhr w)) xhr =
          Some (toNumber (if sg = ''-'' then - 1 else 1) (mathInt ds)))"
proof -
  from assms obtain d tr where h: "xhrMap w xhr = Some d" "trace d = Some tr" "subsegments tr \<noteq> []"
    using traceStartedD by blast
  obtain s ss where ss: "subsegments tr = s # ss"
    using h(3) by (cases "subsegments tr") auto
  let ?w' = "worldOf (handleXhrLoadEvent env now xhr w)"
  let ?hdr = "getResponseHeader (host w xhr) ''Content-Length''"
  have r: "returned (handleXhrLoadEvent env now xhr w)"
    and m: "xhrMap ?w' = (xhrMap w)(xhr \<mapsto> d\<lparr>trace := Some (loadedTrace now (host w xhr) tr)\<rparr>)"
    using load_emits [OF h, of env now] by simp_all
  have resp: "responseOf ?w' xhr =
      Some \<lparr>response_status = status (host w xhr),
            content_length = (if parseInt ?hdr = NaN then None else Some (parseInt ?hdr))\<rparr>"
    by (simp add: responseOf_def subsegment0_def traceOf_def m loadedTrace_def ss isNaN_def)
  then have cl: "contentLengthOf ?w' xhr =
      (if parseInt ?hdr = NaN then None else Some (parseInt ?hdr))"
    by (simp add: contentLengthOf_def)
  have iff: "parseInt ?hdr \<noteq> NaN \<longleftrightarrow>
       (\<exists>ws sg dg rest. ?hdr = Some (ws @ sg @ dg # rest) \<and>
          (\<forall>c\<in>set ws. isStrWhiteSpaceChar c) \<and> sg \<in> {[], ''+'', ''-''} \<and> isDecimalDigit dg)"
  proof (cases ?hdr)
    case None
    then show ?thesis by (simp add: parseInt_null)
  next
    case (Some v)
    then show ?thesis using parseInt_defined_iff [of v] by auto
  qed
  have val: "\<forall>sg ds. ?hdr = Some (sg @ ds) \<and>
        sg \<in> {[], ''+'', ''-''} \<and> ds \<noteq> [] \<and> (\<forall>c\<in>set ds. isDecimalDigit c) \<longrightarrow>
        contentLengthOf ?w' xhr = Some (toNumber (if sg = ''-'' then - 1 else 1) (mathInt ds))"
  proof (intro allI impI)
    fix sg ds
    assume a: "?hdr = Some (sg @ ds) \<and>
        sg \<in> {[], ''+'', ''-''} \<and> ds \<noteq> [] \<and> (\<forall>c\<in>set ds. isDecimalDigit c)"
    then have "parseInt ?hdr = toNumber (if sg = ''-'' then - 1 else 1) (mathInt ds)"
      using parseInt_signed_digits [of sg ds] by simp
    then show "contentLengthOf ?w' xhr =
        Some (toNumber (if sg = ''-'' then - 1 else 1) (mathInt ds))"
      by (simp add: cl toNumber_not_NaN)
  qed
  have nn: "contentLengthOf ?w' xhr \<noteq> Some NaN"
    by (simp add: cl)
  have absent: "?hdr = None \<longrightarrow> contentLengthOf ?w' xhr = None"
    by (simp add: cl parseInt_null)
  have present: "contentLengthOf ?w' xhr \<noteq> None \<longleftrightarrow> parseInt ?hdr \<noteq> NaN"
    by (simp add: cl)
  have iff': "contentLengthOf ?w' xhr \<noteq> None \<longleftrightarrow>
       (\<exists>ws sg dg rest. ?hdr = Some (ws @ sg @ dg # rest) \<and>
          (\<forall>c\<in>set ws. isStrWhiteSpaceChar c) \<and> sg \<in> {[], ''+'', ''-''} \<and> isDecimalDigit dg)"
    by (simp only: present iff)
  show ?thesis
    by (rule conjI [OF r conjI [OF resp conjI [OF nn conjI [OF absent conjI [OF iff' val]]]]])
qed

theorem content_length_is_parseInt_witness:
  "contentLengthOf (worldOf (handleXhrLoadEvent exampleEnv 12 0
      (openedAndSent (exampleWorld False False False None (exampleXhr 200 ''OK'' (Some ''42'')))))) 0 =
     Some (Exact 42) \<and>
   contentLengthOf (worldOf (handleXhrLoadEvent exampleEnv 12 0
      (openedAndSent (exampleWorld False False False None (exampleXhr 200 ''OK'' None))))) 0 = None"
proof -
  have a: "contentLengthOf (worldOf (handleXhrLoadEvent exampleEnv 12 0
      (openedAndSent (exampleWorld False False False None (exampleXhr 200 ''OK'' (Some ''42'')))))) 0 =
     Some (toNumber 1 (mathInt ''42''))"
    using content_length_is_parseInt [OF traceStarted_openedAndSent,
        where w1 = "exampleWorld False False False None (exampleXhr 200 ''OK'' (Some ''42''))"
          and env = exampleEnv and now = 12, THEN conjunct2, THEN conjunct2, THEN conjunct2,
        THEN conjunct2, THEN conjunct2, THEN spec, THEN spec, of "[]" "''42''"]
    by (simp add: openedAndSent_fields exampleWorld_def exampleXhr_def isDecimalDigit_def)
  have b: "contentLengthOf (worldOf (handleXhrLoadEvent exampleEnv 12 0
      (openedAndSent (exampleWorld False False False None (exampleXhr 200 ''OK'' None))))) 0 = None"
    using content_length_is_parseInt [OF traceStarted_openedAndSent,
        where w1 = "exampleWorld False False False None (exampleXhr 200 ''OK'' None)"
          and env = exampleEnv and now = 12, THEN conjunct2, THEN conjunct2, THEN conjunct2,
        THEN conjunct1]
    by (simp add: openedAndSent_fields exampleWorld_def exampleXhr_def)
  have c: "toNumber 1 (mathInt ''42'') = Exact 42"
    by (simp add: toNumber_def mathInt_def digitValue_def)
  from a b c show ?thesis by simp
qed

text \<open>C4 as stated fails: with the header \<^verbatim>\<open>-5\<close> the negative length is attached.\<close>

theorem content_length_negative_counterexample:
  "contentLengthOf (worldOf (handleXhrLoadEvent exampleEnv 12 0
      (openedAndSent (exampleWorld False False False None (exampleXhr 200 ''OK'' (Some ''-5'')))))) 0
   = Some (Exact (- 5))"
proof -
  let ?w = "openedAndSent (exampleWorld False False False None (exampleXhr 200 ''OK'' (Some ''-5'')))"
  have p: "parseInt (Some ''-5'') = Exact (- 5)"
    by (simp add: parseInt_def ToString_def isStrWhiteSpaceChar_def isDecimalDigit_def
        mathInt_def digitValue_def toNumber_def)
  have "xhrMap (worldOf (handleXhrLoadEvent exampleEnv 12 0 ?w)) 0 =
      Some ((initializeTrace exampleEnv 10 exampleFresh (config ?w)
             \<lparr>xhr_method = ''GET'', url = ''https://api.example.com/x'', async = True, trace = None\<rparr>)
          \<lparr>trace := Some (loadedTrace 12 (host ?w 0)
             \<lparr>segment_name = logicalServiceName (config ?w), segment_id = ''0000000000000001'',
           trace_id = ''1-0-000000000000000000000001'', start_time = 10, end_time = None,
           subsegments =
             [\<lparr>subsegment_id = ''0000000000000002'', subsegment_name = ''api.example.com'',
               subsegment_start_time = 10, subsegment_end_time = None,
               http = \<lparr>http_request = \<lparr>request_method = ''GET'', traced = True\<rparr>,
                       http_response = None\<rparr>,
               subsegment_error = None, cause = None\<rparr>]\<rparr>)\<rparr>)"
    using load_emits [where w = ?w and xhr = 0 and env = exampleEnv and now = 12,
        OF openedAndSent_fields(1) openedAndSent_trace]
    by (simp add: openedAndSent_fields(2,3,4))
  then have c: "contentLengthOf (worldOf (handleXhrLoadEvent exampleEnv 12 0 ?w)) 0 =
      (if isNaN (parseInt (getResponseHeader (host ?w 0) ''Content-Length'')) then None
       else Some (parseInt (getResponseHeader (host ?w 0) ''Content-Length'')))"
    by (simp add: contentLengthOf_def responseOf_def subsegment0_def traceOf_def loadedTrace_def)
  have g: "getResponseHeader (host ?w 0) ''Content-Length'' = Some ''-5''"
    by (simp add: openedAndSent_fields(4) exampleWorld_def exampleXhr_def)
  show ?thesis
    by (simp add: c g p isNaN_def)
qed

text \<open>C5. The code at the failing input: \<^verbatim>\<open>open\<close> on the accepted URL, then \<^verbatim>\<open>open\<close> on a
  rejected URL on the same request. The filter rejects the second URL, and the map still holds
  the record of the first call, which the second call was to replace.\<close>

theorem rejected_reopen_keeps_first_record:
  "\<not> isUrlAllowed exampleEnv ''https://other.example.com/y''
       (config (opened (exampleWorld False False False None (exampleXhr 0 [] None)))) \<and>
   xhrMap (openWrapper exampleEnv 0 ''POST'' ''https://other.example.com/y'' False
            (opened (exampleWorld False False False None (exampleXhr 0 [] None)))) 0 =
   Some \<lparr>xhr_method = ''GET'', url = ''https://api.example.com/x'', async = True, trace = None\<rparr>"
  by (simp add: openWrapper_fields(1) opened_fields(1) exampleEnv_def)

text \<open>C6. On a request whose trace was started, the \<^verbatim>\<open>timeout\<close>, \<^verbatim>\<open>abort\<close> and \<^verbatim>\<open>error\<close>
  handlers return and record exactly one HTTP event, whatever \<open>recordAllRequests\<close>,
  \<^verbatim>\<open>enableXRay\<close> and the session are. The event has no response; its error is the
  normalisation of the string \<^verbatim>\<open>XMLHttpRequest timeout\<close>, of the string
  \<^verbatim>\<open>XMLHttpRequest abort\<close>, or of an \<^verbatim>\<open>XhrError\<close> whose message is the status, followed by a
  colon and the status text when there is one. The cause of the subsegment has one exception
  with the fixed type and, for \<^verbatim>\<open>timeout\<close> and \<^verbatim>\<open>abort\<close>, no message; for \<^verbatim>\<open>error\<close> the message
  is the same status message.\<close>

theorem http_summary_on_failure_unconditional:
  assumes "xhrMap w xhr = Some d" and "traceStarted w xhr"
  shows
   "returned (handleXhrTimeoutEvent env now xhr w) \<and>
    recorded HTTP_EVENT_TYPE (emitted w (worldOf (handleXhrTimeoutEvent env now xhr w))) =
      [HttpPayload \<lparr>version = ''1.0.0'', request = \<lparr>event_method = xhr_method d\<rparr>,
         response = None,
         error = Some (errorEventToJsErrorEvent env
                   \<lparr>event_type = ''error'', event_error = ErrorString ''XMLHttpRequest timeout''\<rparr>
                   (stackTraceLength (config w)))\<rparr>] \<and>
    map_option cause (subsegment0 (worldOf (handleXhrTimeoutEvent env now xhr w)) xhr) =
      Some (Some \<lparr>exceptions = [\<lparr>exception_type = ''XMLHttpRequest timeout'',
                                  exception_message = None\<rparr>]\<rparr>) \<and>
    returned (handleXhrAbortEvent env now xhr w) \<and>
    recorded HTTP_EVENT_TYPE (emitted w (worldOf (handleXhrAbortEvent env now xhr w))) =
      [HttpPayload \<lparr>version = ''1.0.0'', request = \<lparr>event_method = xhr_method d\<rparr>,
         response = None,
         error = Some (errorEventToJsErrorEvent env
                   \<lparr>event_type = ''error'', event_error = ErrorString ''XMLHttpRequest abort''\<rparr>
                   (stackTraceLength (config w)))\<rparr>] \<and>
    map_option cause (subsegment0 (worldOf (handleXhrAbortEvent env now xhr w)) xhr) =
      Some (Some \<lparr>exceptions = [\<lparr>exception_type = ''XMLHttpRequest abort'',
                                  exception_message = None\<rparr>]\<rparr>) \<and>
    returned (handleXhrErrorEvent env now xhr w) \<and>
    recorded HTTP_EVENT_TYPE (emitted w (worldOf (handleXhrErrorEvent env now xhr w))) =
      [HttpPayload \<lparr>version = ''1.0.0'', request = \<lparr>event_method = xhr_method d\<rparr>,
         response = None,
         error = Some (errorEventToJsErrorEvent env
                   \<lparr>event_type = ''error'',
                    event_error = XhrError
                      (if statusText (host w xhr) \<noteq> []
                       then toString (status (host w xhr)) @ '': '' @ statusText (host w xhr)
                       else toString (status (host w xhr)))\<rparr>
                   (stackTraceLength (config w)))\<rparr>] \<and>
    map_option cause (subsegment0 (worldOf (handleXhrErrorEvent env now xhr w)) xhr) =
      Some (Some \<lparr>exceptions = [\<lparr>exception_type = ''XMLHttpRequest error'',
         exception_message = Some
           (if statusText (host w xhr) \<noteq> []
            then toString (status (host w xhr)) @ '': '' @ statusText (host w xhr)
            else toString (status (host w xhr)))\<rparr>]\<rparr>)"
proof -
  from assms obtain tr where h: "xhrMap w xhr = Some d" "trace d = Some tr" "subsegments tr \<noteq> []"
    using traceStartedD by fastforce
  obtain s ss where ss: "subsegments tr = s # ss"
    using h(3) by (cases "subsegments tr") auto
  have c: "\<And>w' T. xhrMap w' = (xhrMap w)(xhr \<mapsto> d\<lparr>trace := Some T\<rparr>) \<Longrightarrow>
      subsegment0 w' xhr = (case subsegments T of [] \<Rightarrow> None | s # ss \<Rightarrow> Some s)"
    by (simp add: subsegment0_def traceOf_def)
  show ?thesis
    using timeout_emits [OF h, of env now] abort_emits [OF h, of env now]
      error_emits [OF h, of env now]
    by (simp add: recorded_simps c failedTrace_def ss xhrErrorMessage_def)
qed

theorem http_summary_on_failure_unconditional_witness:
  "recorded HTTP_EVENT_TYPE
     (emitted (openedAndSent (exampleWorld False False False None (exampleXhr 0 [] None)))
        (worldOf (handleXhrTimeoutEvent exampleEnv 12 0
           (openedAndSent (exampleWorld False False False None (exampleXhr 0 [] None)))))) =
     [HttpPayload \<lparr>version = ''1.0.0'', request = \<lparr>event_method = ''GET''\<rparr>,
        response = None,
        error = Some (\<lparr>event_type = ''error'',
                       event_error = ErrorString ''XMLHttpRequest timeout''\<rparr>, 200)\<rparr>] \<and>
   recorded HTTP_EVENT_TYPE
     (emitted (openedAndSent (exampleWorld False False False None (exampleXhr 404 ''Not Found'' None)))
        (worldOf (handleXhrErrorEvent exampleEnv 12 0
           (openedAndSent (exampleWorld False False False None (exampleXhr 404 ''Not Found'' None)))))) =
     [HttpPayload \<lparr>version = ''1.0.0'', request = \<lparr>event_method = ''GET''\<rparr>,
        response = None,
        error = Some (\<lparr>event_type = ''error'',
                       event_error = XhrError ''404: Not Found''\<rparr>, 200)\<rparr>]"
  using
    http_summary_on_failure_unconditional [OF openedAndSent_fields(1) traceStarted_openedAndSent,
        where w1 = "exampleWorld False False False None (exampleXhr 0 [] None)"
          and env = exampleEnv and now = 12]
    http_summary_on_failure_unconditional [OF openedAndSent_fields(1) traceStarted_openedAndSent,
        where w1 = "exampleWorld False False False None (exampleXhr 404 ''Not Found'' None)"
          and env = exampleEnv and now = 12]
  by (simp add: openedAndSent_fields exampleWorld_def exampleXhr_def exampleEnv_def
      initializeTrace_def Let_def toString.simps digitChar_def)




text \<open>C8. The code at the failing input: \<^verbatim>\<open>open\<close> on the accepted URL, then \<^verbatim>\<open>open\<close> on a
  rejected URL on the same request, then \<^verbatim>\<open>send\<close>. The filter rejects the second URL, and
  yet \<^verbatim>\<open>send\<close> adds the four listeners, sets the trace header and starts a trace, named after
  the host of the first URL.\<close>

theorem stale_record_tracks_rejected_url:
  "\<not> isUrlAllowed exampleEnv ''https://other.example.com/y''
       (config (opened (exampleWorld False True True recordedSession (exampleXhr 0 [] None)))) \<and>
   listenersAdded 0
     (emitted
        (openWrapper exampleEnv 0 ''GET'' ''https://other.example.com/y'' True
           (opened (exampleWorld False True True recordedSession (exampleXhr 0 [] None))))
        (worldOf (sendWrapper exampleEnv 10 exampleFresh 0
           (openWrapper exampleEnv 0 ''GET'' ''https://other.example.com/y'' True
              (opened (exampleWorld False True True recordedSession (exampleXhr 0 [] None))))))) =
     [(''load'', handleXhrLoadEvent_listener), (''error'', handleXhrErrorEvent_listener),
      (''abort'', handleXhrAbortEvent_listener), (''timeout'', handleXhrTimeoutEvent_listener)] \<and>
   headersSet 0
     (emitted
        (openWrapper exampleEnv 0 ''GET'' ''https://other.example.com/y'' True
           (opened (exampleWorld False True True recordedSession (exampleXhr 0 [] None))))
        (worldOf (sendWrapper exampleEnv 10 exampleFresh 0
           (openWrapper exampleEnv 0 ''GET'' ''https://other.example.com/y'' True
              (opened (exampleWorld False True True recordedSession (exampleXhr 0 [] None))))))) =
     [(''X-Amzn-Trace-Id'',
       ''Root=1-0-000000000000000000000001;Parent=0000000000000002;Sampled=1'')] \<and>
   map_option subsegment_name
     (subsegment0
        (worldOf (sendWrapper exampleEnv 10 exampleFresh 0
           (openWrapper exampleEnv 0 ''GET'' ''https://other.example.com/y'' True
              (opened (exampleWorld False True True recordedSession (exampleXhr 0 [] None)))))) 0) =
     Some ''api.example.com''"
proof -
  let ?w = "openWrapper exampleEnv 0 ''GET'' ''https://other.example.com/y'' True
              (opened (exampleWorld False True True recordedSession (exampleXhr 0 [] None)))"
  have m: "xhrMap ?w 0 =
     Some \<lparr>xhr_method = ''GET'', url = ''https://api.example.com/x'', async = True, trace = None\<rparr>"
    by (simp add: openWrapper_fields(1) opened_fields exampleEnv_def)
  have r: "sendWrapper exampleEnv 10 exampleFresh 0 ?w =
    Inr (?w\<lparr>xhrMap := (xhrMap ?w)(0 \<mapsto> initializeTrace exampleEnv 10 exampleFresh (config ?w)
             \<lparr>xhr_method = ''GET'', url = ''https://api.example.com/x'', async = True, trace = None\<rparr>),
           calls := calls ?w @
             [AddEventListener 0 ''load'' handleXhrLoadEvent_listener,
              AddEventListener 0 ''error'' handleXhrErrorEvent_listener,
              AddEventListener 0 ''abort'' handleXhrAbortEvent_listener,
              AddEventListener 0 ''timeout'' handleXhrTimeoutEvent_listener] @
             (if enableXRay (plugin_context ?w) \<and> addXRayTraceIdHeader (config ?w) \<and>
                 (\<exists>s. getSession (plugin_context ?w) = Some s \<and> session_record s)
              then [SetRequestHeader 0 (X_AMZN_TRACE_ID exampleEnv)
                      (getAmznTraceIdHeaderValue exampleEnv (fresh_trace_id exampleFresh)
                         (fresh_subsegment_id exampleFresh))]
              else []) @
             [OriginalSend 0]\<rparr>)"
    by (rule sendWrapper_tracked [OF m])
  show ?thesis
    unfolding r
    by (simp add: worldOf_def emitted_def filtered_simps subsegment0_def traceOf_def
        initializeTrace_trace openWrapper_fields(2,3,4) opened_fields(2,3,4)
        exampleWorld_def recordedSession_def exampleEnv_def exampleFresh_def)
qed

text \<open>C9. A terminal callback (\<^verbatim>\<open>load\<close>, \<^verbatim>\<open>error\<close>, \<^verbatim>\<open>abort\<close>, \<^verbatim>\<open>timeout\<close>) for a request with
  no record in \<open>xhrMap\<close> returns without throwing and leaves the world as it was: no event is
  recorded, no call is made, no field changes.\<close>

theorem handlers_without_record_noop:
  assumes "xhrMap w xhr = None"
  shows "handleXhrLoadEvent env now xhr w = Inr w \<and>
         handleXhrErrorEvent env now xhr w = Inr w \<and>
         handleXhrAbortEvent env now xhr w = Inr w \<and>
         handleXhrTimeoutEvent env now xhr w = Inr w"
  using assms
  by (simp add: handleXhrLoadEvent_def handleXhrErrorEvent_def handleXhrAbortEvent_def
      handleXhrTimeoutEvent_def Let_def)

theorem handlers_without_record_noop_witness:
  "handleXhrTimeoutEvent exampleEnv 12 0
     (exampleWorld False False False None (exampleXhr 0 [] None)) =
   Inr (exampleWorld False False False None (exampleXhr 0 [] None))"
  using handlers_without_record_noop [of "exampleWorld False False False None (exampleXhr 0 [] None)" 0 exampleEnv 12]
  by (simp add: exampleWorld_def)

text \<open>C10. For a request with a record, \<^verbatim>\<open>send\<close> returns, adds the four listeners
  (\<^verbatim>\<open>load\<close>, \<^verbatim>\<open>error\<close>, \<^verbatim>\<open>abort\<close>, \<^verbatim>\<open>timeout\<close>) and stores a trace in the record: a root
  segment with the start time and one subsegment with the same start time, the host name of
  the URL, the method and \<^verbatim>\<open>traced = true\<close>. No condition on \<^verbatim>\<open>enableXRay\<close>, the session,
  \<open>recordAllRequests\<close> or \<^verbatim>\<open>addXRayTraceIdHeader\<close> is needed.\<close>

theorem send_attaches_listeners_and_builds_trace:
  assumes "xhrMap w this = Some d"
  shows "returned (sendWrapper env now fresh this w) \<and>
    listenersAdded this (emitted w (worldOf (sendWrapper env now fresh this w))) =
      [(''load'', handleXhrLoadEvent_listener), (''error'', handleXhrErrorEvent_listener),
       (''abort'', handleXhrAbortEvent_listener), (''timeout'', handleXhrTimeoutEvent_listener)] \<and>
    xhrMap (worldOf (sendWrapper env now fresh this w)) this =
      Some (d\<lparr>trace := Some
        \<lparr>segment_name = logicalServiceName (config w), segment_id = fresh_segment_id fresh,
         trace_id = fresh_trace_id fresh, start_time = now, end_time = None,
         subsegments =
           [\<lparr>subsegment_id = fresh_subsegment_id fresh,
             subsegment_name = requestInfoToHostname env (url d),
             subsegment_start_time = now, subsegment_end_time = None,
             http = \<lparr>http_request = \<lparr>request_method = xhr_method d, traced = True\<rparr>,
                     http_response = None\<rparr>,
             subsegment_error = None, cause = None\<rparr>]\<rparr>\<rparr>)"
  by (simp add: sendWrapper_tracked [OF assms] returned_def worldOf_def emitted_def
      filtered_simps initializeTrace_def createXRayTraceEvent_def createXRaySubsegment_def Let_def)

theorem send_attaches_listeners_and_builds_trace_witness:
  "listenersAdded 0
     (emitted (opened (exampleWorld False False False None (exampleXhr 0 [] None)))
        (worldOf (sendWrapper exampleEnv 10 exampleFresh 0
           (opened (exampleWorld False False False None (exampleXhr 0 [] None)))))) =
     [(''load'', handleXhrLoadEvent_listener), (''error'', handleXhrErrorEvent_listener),
      (''abort'', handleXhrAbortEvent_listener), (''timeout'', handleXhrTimeoutEvent_listener)] \<and>
   traceOf (worldOf (sendWrapper exampleEnv 10 exampleFresh 0
           (opened (exampleWorld False False False None (exampleXhr 0 [] None))))) 0 =
     Some \<lparr>segment_name = ''RUM.AWS'', segment_id = ''0000000000000001'',
           trace_id = ''1-0-000000000000000000000001'', start_time = 10, end_time = None,
           subsegments =
             [\<lparr>subsegment_id = ''0000000000000002'', subsegment_name = ''api.example.com'',
               subsegment_start_time = 10, subsegment_end_time = None,
               http = \<lparr>http_request = \<lparr>request_method = ''GET'', traced = True\<rparr>,
                       http_response = None\<rparr>,
               subsegment_error = None, cause = None\<rparr>]\<rparr>"
  using
    send_attaches_listeners_and_builds_trace [OF opened_fields(1), where w1 = "exampleWorld False False False None (exampleXhr 0 [] None)"
          and env = exampleEnv and now = 10 and fresh = exampleFresh]
  by (simp add: opened_fields exampleWorld_def exampleEnv_def exampleFresh_def traceOf_def)

end
